theory Spec2Isabelle
  imports Main
begin

section \<open>Data of the invoice front end\<close>

text \<open>
  The front end consists of the API layer (\<open>generateInvoice\<close>, \<open>checkHealth\<close>) and the
  page script with its module-level variables and DOM handlers. The page script's
  variables and the DOM properties it writes are collected in the record \<open>page\<close>;
  every handler is a function from \<open>page\<close> to \<open>page\<close>.
\<close>

text \<open>A browser \<open>File\<close>: the script reads \<open>f.name\<close> and \<open>f.size\<close> only. Every \<open>File\<close>
  object is truthy, so a slot is falsy exactly when it holds \<open>null\<close> (\<open>None\<close>).\<close>

datatype js_file = File (file_name: string) (file_size: nat)

text \<open>A JavaScript number. A finite number is given by its sign and the shortest decimal
  that reads back as the same double, the digits that \<open>Number.prototype.toString\<close> prints:
  the value is \<open>(-1)^negative * coefficient * 10^exponent\<close>, so 1234.5 is
  \<open>Finite False 12345 (-1)\<close> and \<open>-0\<close> is \<open>Finite True 0 0\<close>. A JSON literal beyond the
  range of a double, such as \<open>1e999\<close>, is read as an infinity; no JSON text is read as
  NaN, which is a number of the language all the same.\<close>

datatype number = Finite (negative: bool) (coefficient: nat) (exponent: int) | Infinite bool | NaN

text \<open>The engineer configuration is an arbitrary JSON value, opaque to the client.\<close>

datatype json_value =
    JNull
  | JBool bool
  | JNum number
  | JStr string
  | JArr "json_value list"
  | JObj "(string \<times> json_value) list"

text \<open>The fields of \<open>result.summary\<close> that are read below.\<close>

record summary =
  grand_total_usd :: number
  contract_number :: string

text \<open>A decoded JSON body of the backend. The generate endpoint answers with one
  object shape: \<open>success\<close>, \<open>summary\<close> and, on failure, \<open>errors\<close> or \<open>detail\<close>. The
  properties have the types of the backend's contract: \<open>detail\<close> is a string and
  \<open>errors\<close> an array of strings. An absent optional property (\<open>undefined\<close>) is \<open>None\<close>;
  an absent \<open>success\<close> is falsy.\<close>

record api_json =
  success :: bool
  detail :: "string option"
  errors :: "string list option"
  summary :: summary

text \<open>What \<open>fetch\<close> settles to. \<open>json\<close> is what \<open>response.json()\<close> settles to: \<open>Inl\<close> is
  the message of the rejection (the body is not JSON), \<open>Inr\<close> the decoded body.\<close>

record http_response =
  status :: nat
  json :: "string + api_json"

datatype fetch_outcome = Rejected string | Resolved http_response

text \<open>The multipart form that \<open>generateInvoice\<close> posts.\<close>

record request =
  po_pdf :: "js_file option"
  timesheets :: "js_file list"
  template :: "js_file option"
  engineer_config :: json_value
  strict :: string

text \<open>The removal callbacks that the script passes to \<open>renderFileList\<close>: the three
  closures of the drop-zone handlers and the empty callback \<open>() => {}\<close>.\<close>

datatype remover = PoRemove | TsRemove | TplRemove | NoRemove

text \<open>One rendered \<open>div.file-item\<close>: the file it shows and the click listener of its
  remove button, which calls \<open>onRemove(i)\<close> with the index captured at render time.\<close>

record file_item =
  item_file :: js_file
  item_index :: nat
  item_onRemove :: remover

datatype js_error = ReferenceError string

record page =
  poPdf :: "js_file option"
  timesheetFiles :: "js_file list"
  templateFile :: "js_file option"
  lastResult :: "api_json option"
  poFileList :: "file_item list"
  tsFileList :: "file_item list"
  tplFileList :: "file_item list"
  configTextarea :: string
  strictCheckbox :: bool
  generateBtn_disabled :: bool
  statusSection_hidden :: bool
  statusText :: string
  resultsSection_hidden :: bool
  errorSection_hidden :: bool
  errorText :: string
  grand_total :: string
  contract_number_text :: string
  healthDot :: string
  healthLabel :: string
  in_flight :: "request list"

section \<open>Platform functions used by the script\<close>

text \<open>Decimal digits of a natural number, as template literals print an integer.\<close>

definition digit_char :: "nat \<Rightarrow> char" where
  "digit_char d = ''0123456789'' ! (d mod 10)"

fun string_of_nat :: "nat \<Rightarrow> string" where
  "string_of_nat n =
     (if n < 10 then [digit_char n] else string_of_nat (n div 10) @ [digit_char (n mod 10)])"

declare string_of_nat.simps [simp del]

text \<open>\<open>Array.prototype.join("\n")\<close> on an array of strings.\<close>

fun js_join :: "string list \<Rightarrow> string" where
  "js_join [] = []"
| "js_join [x] = x"
| "js_join (x # y # ys) = x @ [CHR 0x0A] @ js_join (y # ys)"

text \<open>\<open>Array.prototype.splice(idx, 1)\<close>: removes the element at \<open>idx\<close> when there is one
  and leaves the array as it is when \<open>idx\<close> is past the end.\<close>

definition splice1 :: "nat \<Rightarrow> 'a list \<Rightarrow> 'a list" where
  "splice1 idx xs = take idx xs @ drop (Suc idx) xs"

text \<open>\<open>Response.ok\<close>: the status is in the range 200 to 299.\<close>

definition ok :: "http_response \<Rightarrow> bool" where
  "ok response = (200 \<le> status response \<and> status response \<le> 299)"

text \<open>\<open>Number.prototype.toLocaleString("en-US", { minimumFractionDigits: 2 })\<close>. The maximum
  of fraction digits defaults to 3. The engine rounds the shortest decimal of a finite
  number to thousandths, ties away from zero; \<open>thousandths c e\<close> is the rounded magnitude
  of \<open>c * 10^e\<close> in thousandths. The integer digits are grouped in threes by commas, a
  zero in the third fraction digit is dropped, and a minus sign precedes a negative
  number, also when it rounds to zero. An infinity is rendered by the infinity sign
  (U+221E, here its three UTF-8 bytes) and a NaN by \<open>NaN\<close>.\<close>

definition thousandths :: "nat \<Rightarrow> int \<Rightarrow> nat" where
  "thousandths c e =
     (2 * (c * 1000 * 10 ^ nat e) + 10 ^ nat (- e)) div (2 * 10 ^ nat (- e))"

function group3 :: "string \<Rightarrow> string" where
  "group3 ds =
     (if length ds \<le> 3 then ds
      else group3 (take (length ds - 3) ds) @ '','' @ drop (length ds - 3) ds)"
  by pat_completeness auto
termination
  by (relation "measure length") auto

declare group3.simps [simp del]

definition fraction_digits :: "nat \<Rightarrow> string" where
  "fraction_digits t =
     (let d1 = digit_char (t mod 1000 div 100);
          d2 = digit_char (t mod 100 div 10);
          d3 = digit_char (t mod 10)
      in if t mod 10 = 0 then [d1, d2] else [d1, d2, d3])"

definition infinity_sign :: string where
  "infinity_sign = [CHR 0xE2, CHR 0x88, CHR 0x9E]"

fun toLocaleString :: "number \<Rightarrow> string" where
  "toLocaleString (Finite neg c e) =
     (if neg then ''-'' else '''') @
     group3 (string_of_nat (thousandths c e div 1000)) @ ''.'' @ fraction_digits (thousandths c e)"
| "toLocaleString (Infinite neg) = (if neg then ''-'' else '''') @ infinity_sign"
| "toLocaleString NaN = ''NaN''"

declare toLocaleString.simps [simp del]

section \<open>API layer\<close>

text \<open>\<open>generateInvoice\<close> runs in two parts. Up to its first \<open>await\<close> it builds the form
  and calls \<open>fetch\<close>; \<open>generateInvoice_send\<close> is the form it posts. When the fetch settles
  it resumes; \<open>generateInvoice_resume\<close> is what the call then returns (\<open>Inr\<close>) or the
  message of the \<open>Error\<close> it throws (\<open>Inl\<close>).\<close>

definition generateInvoice_send ::
  "js_file option \<Rightarrow> js_file list \<Rightarrow> js_file option \<Rightarrow> json_value \<Rightarrow> bool \<Rightarrow> request" where
  "generateInvoice_send poPdf' timesheets' template' engineerConfig strict' =
     \<lparr>po_pdf = poPdf', timesheets = timesheets', template = template',
      engineer_config = engineerConfig,
      strict = (if strict' then ''true'' else ''false'')\<rparr>"

text \<open>\<open>err.detail || err.errors?.join("\n") || detail\<close>: a string operand is taken when it
  is defined and not empty.\<close>

definition error_detail :: "api_json \<Rightarrow> string \<Rightarrow> string" where
  "error_detail err dflt =
     (case detail err of
        Some d \<Rightarrow> if d \<noteq> [] then d
                  else (case errors err of
                          Some es \<Rightarrow> if js_join es \<noteq> [] then js_join es else dflt
                        | None \<Rightarrow> dflt)
      | None \<Rightarrow> (case errors err of
                   Some es \<Rightarrow> if js_join es \<noteq> [] then js_join es else dflt
                 | None \<Rightarrow> dflt))"

definition generateInvoice_resume :: "fetch_outcome \<Rightarrow> string + api_json" where
  "generateInvoice_resume outcome =
     (case outcome of
        Rejected msg \<Rightarrow> Inl msg
      | Resolved response \<Rightarrow>
          if \<not> ok response then
            (case json response of
               Inr err \<Rightarrow> Inl (error_detail err (''HTTP '' @ string_of_nat (status response)))
             | Inl _ \<Rightarrow> Inl (''HTTP '' @ string_of_nat (status response)))
          else json response)"

definition checkHealth :: "fetch_outcome \<Rightarrow> bool" where
  "checkHealth outcome =
     (case outcome of Resolved res \<Rightarrow> ok res | Rejected _ \<Rightarrow> False)"

section \<open>Page script\<close>

fun render_items :: "nat \<Rightarrow> js_file option list \<Rightarrow> remover \<Rightarrow> file_item list" where
  "render_items i [] onRemove = []"
| "render_items i (None # fs) onRemove = render_items (Suc i) fs onRemove"
| "render_items i (Some f # fs) onRemove =
     \<lparr>item_file = f, item_index = i, item_onRemove = onRemove\<rparr> # render_items (Suc i) fs onRemove"

text \<open>\<open>renderFileList\<close> empties the container and appends one item per truthy entry,
  numbered by its position in the array; the result is the container's new content.
  Every caller passes an array, so the \<open>Array.isArray\<close> alternative is not taken. The
  name and the size label of an item are computed from its file and are not kept
  apart.\<close>

definition renderFileList :: "js_file option list \<Rightarrow> remover \<Rightarrow> file_item list" where
  "renderFileList files onRemove = render_items 0 files onRemove"

definition updateGenerateBtn :: "page \<Rightarrow> page" where
  "updateGenerateBtn s =
     (let ready = (poPdf s \<noteq> None \<and> length (timesheetFiles s) > 0 \<and> templateFile s \<noteq> None)
      in s\<lparr>generateBtn_disabled := \<not> ready\<rparr>)"

definition showError :: "string \<Rightarrow> page \<Rightarrow> page" where
  "showError msg s =
     s\<lparr>errorSection_hidden := False, resultsSection_hidden := True, errorText := msg\<rparr>"

text \<open>\<open>showResults\<close>: the two visibility switches, the grand total and the contract
  number. The hour cells, the engineer cards and the download hooks are further writes
  to elements that no other code reads; they are not part of \<open>page\<close>.\<close>

definition showResults :: "api_json \<Rightarrow> page \<Rightarrow> page" where
  "showResults result s =
     s\<lparr>resultsSection_hidden := False, errorSection_hidden := True,
       grand_total := ''$'' @ toLocaleString (grand_total_usd (summary result)),
       contract_number_text := contract_number (summary result)\<rparr>"

text \<open>The three callbacks \<open>onFiles\<close> that the script passes to \<open>setupDropzone\<close>, for
  the PO, the timesheets and the template. \<open>setupDropzone\<close> calls them with the dropped or
  picked files.\<close>

definition onPoFiles :: "js_file list \<Rightarrow> page \<Rightarrow> page" where
  "onPoFiles files s =
     (case files of
        [] \<Rightarrow> s
      | f # _ \<Rightarrow> updateGenerateBtn
          (s\<lparr>poPdf := Some f, poFileList := renderFileList [Some f] PoRemove\<rparr>))"

definition onTsFiles :: "js_file list \<Rightarrow> page \<Rightarrow> page" where
  "onTsFiles files s =
     updateGenerateBtn
       (s\<lparr>timesheetFiles := timesheetFiles s @ files,
          tsFileList := renderFileList (map Some (timesheetFiles s @ files)) TsRemove\<rparr>)"

definition onTplFiles :: "js_file list \<Rightarrow> page \<Rightarrow> page" where
  "onTplFiles files s =
     (case files of
        [] \<Rightarrow> s
      | f # _ \<Rightarrow> updateGenerateBtn
          (s\<lparr>templateFile := Some f, tplFileList := renderFileList [Some f] TplRemove\<rparr>))"

text \<open>The removal callbacks. The result is the page they leave and the exception they
  end with, if any.

  The timesheet callback is an arrow function inside an arrow function at the top level
  of the script. Arrow functions have no \<open>arguments\<close> object of their own and the script's
  top level has none either, so evaluating \<open>arguments.callee\<close> throws a
  \<open>ReferenceError\<close>: after \<open>splice\<close>, neither \<open>renderFileList\<close> nor \<open>updateGenerateBtn\<close> is
  reached.\<close>

definition run_onRemove :: "remover \<Rightarrow> nat \<Rightarrow> page \<Rightarrow> js_error option \<times> page" where
  "run_onRemove h idx s =
     (case h of
        PoRemove \<Rightarrow>
          (None, updateGenerateBtn (s\<lparr>poPdf := None, poFileList := renderFileList [] NoRemove\<rparr>))
      | TsRemove \<Rightarrow>
          (Some (ReferenceError ''arguments is not defined''),
           s\<lparr>timesheetFiles := splice1 idx (timesheetFiles s)\<rparr>)
      | TplRemove \<Rightarrow>
          (None, updateGenerateBtn (s\<lparr>templateFile := None, tplFileList := renderFileList [] NoRemove\<rparr>))
      | NoRemove \<Rightarrow> (None, s))"

text \<open>A click on the remove button of a rendered item runs its listener.\<close>

definition click_remove :: "file_item \<Rightarrow> page \<Rightarrow> js_error option \<times> page" where
  "click_remove item s = run_onRemove (item_onRemove item) (item_index item) s"

text \<open>The click listener of the generate button, up to its \<open>await\<close>. \<open>JSON_parse\<close> is the
  platform's \<open>JSON.parse\<close>: \<open>Inl\<close> is the message of the \<open>SyntaxError\<close> it throws.\<close>

definition generateBtn_click :: "(string \<Rightarrow> string + json_value) \<Rightarrow> page \<Rightarrow> page" where
  "generateBtn_click JSON_parse s =
     (case JSON_parse (configTextarea s) of
        Inl message \<Rightarrow> showError (''Invalid JSON config: '' @ message) s
      | Inr config \<Rightarrow>
          s\<lparr>statusSection_hidden := False,
            resultsSection_hidden := True,
            errorSection_hidden := True,
            statusText := ''Processing... This may take 10-30 seconds.'',
            generateBtn_disabled := True,
            in_flight := in_flight s @
              [generateInvoice_send (poPdf s) (timesheetFiles s) (templateFile s) config
                 (strictCheckbox s)]\<rparr>)"

text \<open>The rest of the listener, run when the fetch of its request has settled.\<close>

definition generateBtn_resume :: "fetch_outcome \<Rightarrow> page \<Rightarrow> page" where
  "generateBtn_resume outcome s =
     (let s1 =
        (case generateInvoice_resume outcome of
           Inr result \<Rightarrow>
             (let s' = s\<lparr>lastResult := Some result\<rparr>
              in if success result then showResults result s'
                 else showError
                   (case errors result of
                      Some es \<Rightarrow> if js_join es \<noteq> [] then js_join es else ''Unknown error''
                    | None \<Rightarrow> ''Unknown error'') s')
         | Inl message \<Rightarrow> showError (''Request failed: '' @ message) s)
      in updateGenerateBtn (s1\<lparr>statusSection_hidden := True\<rparr>))"

definition checkBackendHealth :: "fetch_outcome \<Rightarrow> page \<Rightarrow> page" where
  "checkBackendHealth outcome s =
     (let ok' = checkHealth outcome
      in s\<lparr>healthDot := ''health-dot '' @ (if ok' then ''healthy'' else ''unhealthy''),
           healthLabel := (if ok' then ''API Connected'' else ''API Offline'')\<rparr>)"

section \<open>Events\<close>

text \<open>What can happen to the page: files arrive at a drop zone, the remove button of
  the \<open>k\<close>-th item of a list is clicked, the user edits the configuration or the strict
  box, clicks the generate button, the fetch of the \<open>k\<close>-th request in flight settles, or
  a health poll settles. The browser dispatches no click event on a disabled button.
  An exception that leaves a listener is reported and the page stays as the listener
  left it.\<close>

datatype slot = Po | Ts | Tpl

datatype event =
    Drop slot "js_file list"
  | ClickRemove slot nat
  | EditConfig string
  | SetStrict bool
  | ClickGenerate
  | FetchSettled nat fetch_outcome
  | HealthSettled fetch_outcome

definition container :: "slot \<Rightarrow> page \<Rightarrow> file_item list" where
  "container c s = (case c of Po \<Rightarrow> poFileList s | Ts \<Rightarrow> tsFileList s | Tpl \<Rightarrow> tplFileList s)"

definition step :: "(string \<Rightarrow> string + json_value) \<Rightarrow> event \<Rightarrow> page \<Rightarrow> page" where
  "step JSON_parse e s =
     (case e of
        Drop c files \<Rightarrow>
          (case c of Po \<Rightarrow> onPoFiles files s | Ts \<Rightarrow> onTsFiles files s | Tpl \<Rightarrow> onTplFiles files s)
      | ClickRemove c k \<Rightarrow>
          (if k < length (container c s) then snd (click_remove (container c s ! k) s) else s)
      | EditConfig text \<Rightarrow> s\<lparr>configTextarea := text\<rparr>
      | SetStrict b \<Rightarrow> s\<lparr>strictCheckbox := b\<rparr>
      | ClickGenerate \<Rightarrow> (if generateBtn_disabled s then s else generateBtn_click JSON_parse s)
      | FetchSettled k outcome \<Rightarrow>
          (if k < length (in_flight s)
           then generateBtn_resume outcome (s\<lparr>in_flight := splice1 k (in_flight s)\<rparr>)
           else s)
      | HealthSettled outcome \<Rightarrow> checkBackendHealth outcome s)"

fun run :: "(string \<Rightarrow> string + json_value) \<Rightarrow> event list \<Rightarrow> page \<Rightarrow> page" where
  "run JSON_parse [] s = s"
| "run JSON_parse (e # es) s = run JSON_parse es (step JSON_parse e s)"

text \<open>A page on which nothing has been chosen yet: the script's variables as declared,
  empty lists, the generate button disabled and the three sections hidden. The example
  traces below start from it.\<close>

definition initial :: page where
  "initial =
     \<lparr>poPdf = None, timesheetFiles = [], templateFile = None, lastResult = None,
      poFileList = [], tsFileList = [], tplFileList = [],
      configTextarea = ''{}'', strictCheckbox = False,
      generateBtn_disabled = True,
      statusSection_hidden = True, statusText = '''',
      resultsSection_hidden = True, errorSection_hidden = True, errorText = '''',
      grand_total = '''', contract_number_text = '''',
      healthDot = ''health-dot'', healthLabel = '''',
      in_flight = []\<rparr>"

section \<open>Notions used in the statements\<close>

text \<open>Sequences of the two display operations.\<close>

datatype display_op = ShowResults api_json | ShowError string

fun display :: "display_op list \<Rightarrow> page \<Rightarrow> page" where
  "display [] s = s"
| "display (ShowResults result # ops) s = display ops (showResults result s)"
| "display (ShowError msg # ops) s = display ops (showError msg s)"

text \<open>The results section and the error section are not both visible.\<close>

definition exclusive :: "page \<Rightarrow> bool" where
  "exclusive s = (resultsSection_hidden s \<or> errorSection_hidden s)"






subsection \<open>Example inputs\<close>

text \<open>A summary with the grand total 1234.5, and one with an infinite grand total.\<close>

definition example_summary :: summary where
  "example_summary = \<lparr>grand_total_usd = Finite False 12345 (- 1), contract_number = ''C-1''\<rparr>"


definition succeeded_body :: api_json where
  "succeeded_body =
     \<lparr>success = True, detail = None, errors = None, summary = example_summary\<rparr>"

definition failed_body :: api_json where
  "failed_body =
     \<lparr>success = False, detail = None, errors = Some [''A'', ''B''], summary = example_summary\<rparr>"

definition blank_error_body :: api_json where
  "blank_error_body =
     \<lparr>success = False, detail = None, errors = Some [''''], summary = example_summary\<rparr>"

definition detail_body :: api_json where
  "detail_body =
     \<lparr>success = False, detail = Some ''Invalid PO'', errors = Some [''A'', ''B''],
      summary = example_summary\<rparr>"

definition empty_body :: api_json where
  "empty_body =
     \<lparr>success = False, detail = None, errors = None, summary = example_summary\<rparr>"

text \<open>A \<open>JSON.parse\<close> that accepts the text, and one that rejects it.\<close>

definition accept_json :: "string \<Rightarrow> string + json_value" where
  "accept_json cfg = Inr (JObj [])"

definition reject_json :: "string \<Rightarrow> string + json_value" where
  "reject_json cfg = Inl ''Unexpected end of JSON input''"

definition po_file :: js_file where
  "po_file = File ''po.pdf'' 2048"

definition ts_file1 :: js_file where
  "ts_file1 = File ''week1.xlsx'' 1024"

definition ts_file2 :: js_file where
  "ts_file2 = File ''week2.xlsx'' 1024"

definition tpl_file :: js_file where
  "tpl_file = File ''template.xlsx'' 4096"

section \<open>Auxiliary facts\<close>

lemma updateGenerateBtn_frame [simp]:
  "resultsSection_hidden (updateGenerateBtn s) = resultsSection_hidden s"
  "errorSection_hidden (updateGenerateBtn s) = errorSection_hidden s"
  "errorText (updateGenerateBtn s) = errorText s"
  "lastResult (updateGenerateBtn s) = lastResult s"
  "grand_total (updateGenerateBtn s) = grand_total s"
  "in_flight (updateGenerateBtn s) = in_flight s"
  "timesheetFiles (updateGenerateBtn s) = timesheetFiles s"
  "tsFileList (updateGenerateBtn s) = tsFileList s"
  by (simp_all add: updateGenerateBtn_def)

lemma js_join_empty_iff: "js_join es = [] \<longleftrightarrow> es = [] \<or> es = [[]]"
  by (induction es rule: js_join.induct) simp_all

lemma string_of_nat_400: "string_of_nat 400 = ''400''"
  by (simp add: string_of_nat.simps digit_char_def)

lemma string_of_nat_502: "string_of_nat 502 = ''502''"
  by (simp add: string_of_nat.simps digit_char_def)




lemma updateGenerateBtn_ready:
  "(\<not> generateBtn_disabled (updateGenerateBtn s)) =
     (poPdf s \<noteq> None \<and> templateFile s \<noteq> None \<and> timesheetFiles s \<noteq> [])
   \<and> updateGenerateBtn s = s\<lparr>generateBtn_disabled := generateBtn_disabled (updateGenerateBtn s)\<rparr>"
  by (auto simp: updateGenerateBtn_def)

subsection \<open>Digits, groups and rounding\<close>



















lemma errorText_resume_failure:
  "generateInvoice_resume outcome = Inl message \<Longrightarrow>
     errorText (generateBtn_resume outcome s) = ''Request failed: '' @ message"
  by (simp add: generateBtn_resume_def showError_def)

subsection \<open>Exclusive visibility is kept by every handler\<close>

lemma showResults_exclusive: "exclusive (showResults result s)"
  by (simp add: exclusive_def showResults_def)

lemma showError_exclusive: "exclusive (showError msg s)"
  by (simp add: exclusive_def showError_def)

lemma display_exclusive: "ops \<noteq> [] \<or> exclusive s \<Longrightarrow> exclusive (display ops s)"
proof (induction ops arbitrary: s)
  case Nil
  then show ?case by simp
next
  case (Cons op ops)
  show ?case
  proof (cases op)
    case (ShowResults result)
    then show ?thesis
      using Cons.IH [of "showResults result s"] showResults_exclusive by simp
  next
    case (ShowError msg)
    then show ?thesis
      using Cons.IH [of "showError msg s"] showError_exclusive by simp
  qed
qed

lemma generateBtn_resume_exclusive: "exclusive (generateBtn_resume outcome s)"
  by (simp add: generateBtn_resume_def exclusive_def showResults_def showError_def Let_def
      split: sum.splits)

lemma generateBtn_click_exclusive: "exclusive (generateBtn_click JSON_parse s)"
  by (simp add: generateBtn_click_def exclusive_def showError_def split: sum.splits)

lemma onFiles_exclusive:
  "exclusive (onPoFiles files s) = exclusive s"
  "exclusive (onTsFiles files s) = exclusive s"
  "exclusive (onTplFiles files s) = exclusive s"
  by (simp_all add: onPoFiles_def onTsFiles_def onTplFiles_def exclusive_def split: list.splits)

lemma run_onRemove_exclusive: "exclusive (snd (run_onRemove h idx s)) = exclusive s"
  by (cases h) (simp_all add: run_onRemove_def exclusive_def)

lemma step_exclusive: "exclusive s \<Longrightarrow> exclusive (step JSON_parse e s)"
proof (cases e)
  case (Drop c files)
  assume "exclusive s"
  then show ?thesis using Drop by (cases c) (simp_all add: step_def onFiles_exclusive)
next
  case (ClickRemove c k)
  assume "exclusive s"
  then show ?thesis using ClickRemove
    by (simp add: step_def click_remove_def run_onRemove_exclusive)
next
  case (EditConfig cfg)
  assume "exclusive s"
  then show ?thesis using EditConfig by (simp add: step_def exclusive_def)
next
  case (SetStrict b)
  assume "exclusive s"
  then show ?thesis using SetStrict by (simp add: step_def exclusive_def)
next
  case ClickGenerate
  assume "exclusive s"
  then show ?thesis using ClickGenerate by (simp add: step_def generateBtn_click_exclusive)
next
  case (FetchSettled k outcome)
  assume "exclusive s"
  then show ?thesis using FetchSettled by (simp add: step_def generateBtn_resume_exclusive)
next
  case (HealthSettled outcome)
  assume "exclusive s"
  then show ?thesis using HealthSettled
    by (simp add: step_def checkBackendHealth_def exclusive_def Let_def)
qed

lemma run_exclusive: "exclusive s \<Longrightarrow> exclusive (run JSON_parse es s)"
  by (induction es arbitrary: s) (simp_all add: step_exclusive)

section \<open>The generate button\<close>

text \<open>
  C1. The generate button can be enabled while the list of timesheets is empty. A PO,
  one timesheet and a template are dropped, which enables the button; then the remove
  button of the timesheet is clicked. The callback empties \<open>timesheetFiles\<close> and ends
  with the \<open>ReferenceError\<close> before it reaches \<open>updateGenerateBtn\<close>, so the button stays
  enabled although no timesheet is left, and a click on it posts a form without
  timesheets.
\<close>

theorem generate_enabled_without_timesheets:
  "\<not> generateBtn_disabled
      (run accept_json [Drop Po [po_file], Drop Ts [ts_file1], Drop Tpl [tpl_file]] initial)
   \<and> poPdf
        (run accept_json
           [Drop Po [po_file], Drop Ts [ts_file1], Drop Tpl [tpl_file], ClickRemove Ts 0] initial)
        = Some po_file
   \<and> templateFile
        (run accept_json
           [Drop Po [po_file], Drop Ts [ts_file1], Drop Tpl [tpl_file], ClickRemove Ts 0] initial)
        = Some tpl_file
   \<and> timesheetFiles
        (run accept_json
           [Drop Po [po_file], Drop Ts [ts_file1], Drop Tpl [tpl_file], ClickRemove Ts 0] initial)
        = []
   \<and> \<not> generateBtn_disabled
        (run accept_json
           [Drop Po [po_file], Drop Ts [ts_file1], Drop Tpl [tpl_file], ClickRemove Ts 0] initial)
   \<and> map timesheets (in_flight
        (run accept_json
           [Drop Po [po_file], Drop Ts [ts_file1], Drop Tpl [tpl_file], ClickRemove Ts 0,
            ClickGenerate] initial))
        = [[]]"
  by (simp add: step_def onPoFiles_def onTsFiles_def onTplFiles_def renderFileList_def
      container_def click_remove_def run_onRemove_def splice1_def generateBtn_click_def
      generateInvoice_send_def accept_json_def updateGenerateBtn_def initial_def)

text \<open>
  C3. When \<open>JSON.parse\<close> rejects the configuration text, the click on the generate button
  sends no request, shows the error section with a message that carries the parser's
  message, and changes nothing else: the three selection slots, the stored result and
  the requests in flight are as before.
\<close>

theorem generateBtn_click_invalid_json:
  "JSON_parse (configTextarea s) = Inl message \<Longrightarrow>
     generateBtn_click JSON_parse s =
       s\<lparr>errorSection_hidden := False, resultsSection_hidden := True,
         errorText := ''Invalid JSON config: '' @ message\<rparr>
     \<and> in_flight (generateBtn_click JSON_parse s) = in_flight s
     \<and> lastResult (generateBtn_click JSON_parse s) = lastResult s
     \<and> poPdf (generateBtn_click JSON_parse s) = poPdf s
     \<and> timesheetFiles (generateBtn_click JSON_parse s) = timesheetFiles s
     \<and> templateFile (generateBtn_click JSON_parse s) = templateFile s"
  by (simp add: generateBtn_click_def showError_def)

theorem generateBtn_click_invalid_json_witness:
  "reject_json (configTextarea (initial\<lparr>configTextarea := ''{''\<rparr>)) = Inl ''Unexpected end of JSON input''
   \<and> errorText (generateBtn_click reject_json (initial\<lparr>configTextarea := ''{''\<rparr>))
       = ''Invalid JSON config: Unexpected end of JSON input''
   \<and> in_flight (generateBtn_click reject_json (initial\<lparr>configTextarea := ''{''\<rparr>)) = []"
proof -
  have h: "reject_json (configTextarea (initial\<lparr>configTextarea := ''{''\<rparr>))
      = Inl ''Unexpected end of JSON input''"
    by (simp add: reject_json_def)
  show ?thesis
    using h generateBtn_click_invalid_json
        [of reject_json "initial\<lparr>configTextarea := ''{''\<rparr>" "''Unexpected end of JSON input''"]
    by (simp add: initial_def)
qed

text \<open>
  C9. A second request can be sent while the first one is in flight. After the click
  the button is disabled and one request is in flight; a timesheet dropped meanwhile
  runs \<open>updateGenerateBtn\<close>, which enables the button again; a second click then sends a
  second request.
\<close>

theorem two_requests_in_flight:
  "generateBtn_disabled
     (run accept_json [Drop Po [po_file], Drop Ts [ts_file1], Drop Tpl [tpl_file], ClickGenerate] initial)
   \<and> length (in_flight
       (run accept_json [Drop Po [po_file], Drop Ts [ts_file1], Drop Tpl [tpl_file], ClickGenerate]
          initial)) = 1
   \<and> \<not> generateBtn_disabled
       (run accept_json [Drop Po [po_file], Drop Ts [ts_file1], Drop Tpl [tpl_file], ClickGenerate,
          Drop Ts [ts_file2]] initial)
   \<and> length (in_flight
       (run accept_json [Drop Po [po_file], Drop Ts [ts_file1], Drop Tpl [tpl_file], ClickGenerate,
          Drop Ts [ts_file2], ClickGenerate] initial)) = 2"
  by (simp add: step_def onPoFiles_def onTsFiles_def onTplFiles_def renderFileList_def
      generateBtn_click_def accept_json_def updateGenerateBtn_def initial_def)

section \<open>The timesheet list\<close>

text \<open>
  C2. Two timesheets are dropped and the remove button of the first is clicked. The
  callback removes the first file from \<open>timesheetFiles\<close> and then ends with a
  \<open>ReferenceError\<close>: the list is not rendered again, so it still shows both items
  with the indices 0 and 1. A click on the remove button of the second item then
  removes nothing, and a second click on the first item's button removes the second
  file.
\<close>

theorem timesheet_removal_stale:
  "timesheetFiles (run accept_json [Drop Ts [ts_file1, ts_file2], ClickRemove Ts 0] initial)
     = [ts_file2]
   \<and> map item_file
        (tsFileList (run accept_json [Drop Ts [ts_file1, ts_file2], ClickRemove Ts 0] initial))
        = [ts_file1, ts_file2]
   \<and> map item_index
        (tsFileList (run accept_json [Drop Ts [ts_file1, ts_file2], ClickRemove Ts 0] initial))
        = [0, 1]
   \<and> fst (click_remove (tsFileList (run accept_json [Drop Ts [ts_file1, ts_file2]] initial) ! 0)
        (run accept_json [Drop Ts [ts_file1, ts_file2]] initial))
        = Some (ReferenceError ''arguments is not defined'')
   \<and> timesheetFiles
        (run accept_json [Drop Ts [ts_file1, ts_file2], ClickRemove Ts 0, ClickRemove Ts 1] initial)
        = [ts_file2]
   \<and> timesheetFiles
        (run accept_json [Drop Ts [ts_file1, ts_file2], ClickRemove Ts 0, ClickRemove Ts 0] initial)
        = []"
  by (simp add: step_def onTsFiles_def renderFileList_def container_def click_remove_def
      run_onRemove_def splice1_def updateGenerateBtn_def initial_def)

section \<open>Failures of the generation call\<close>

text \<open>
  C4, as stated, fails: a 400 response whose body has no \<open>detail\<close> but the errors
  \<open>["A", "B"]\<close> is reported with the joined errors, not with the status code.
\<close>

theorem transport_failure_counterexample:
  "\<not> ok \<lparr>status = 400, json = Inr failed_body\<rparr>
   \<and> detail failed_body = None
   \<and> errorText (generateBtn_resume (Resolved \<lparr>status = 400, json = Inr failed_body\<rparr>) initial)
       = ''Request failed: A\<newline>B''
   \<and> errorText (generateBtn_resume (Resolved \<lparr>status = 400, json = Inr failed_body\<rparr>) initial)
       \<noteq> ''Request failed: HTTP 400''"
  by (simp add: generateBtn_resume_def generateInvoice_resume_def error_detail_def ok_def
      failed_body_def showError_def)

text \<open>
  C4, amended. The banner shows \<open>Request failed: \<close> followed by: the message of the
  exception when the fetch is rejected; for a response with a status outside the ok
  range, the \<open>detail\<close> of the JSON body when it is present and not empty, otherwise the
  body's \<open>errors\<close> joined by newlines when they are present and the joined text is not
  empty, otherwise \<open>HTTP\<close> and the status code, which is also the message when the body
  is not JSON.
\<close>

theorem transport_failure_message:
  "errorText (generateBtn_resume (Rejected message) s) = ''Request failed: '' @ message
   \<and> (\<not> ok response \<and> json response = Inr err \<and> detail err = Some d \<and> d \<noteq> [] \<longrightarrow>
        errorText (generateBtn_resume (Resolved response) s) = ''Request failed: '' @ d)
   \<and> (\<not> ok response \<and> json response = Inr err \<and> (detail err = None \<or> detail err = Some [])
        \<and> errors err = Some es \<and> js_join es \<noteq> [] \<longrightarrow>
        errorText (generateBtn_resume (Resolved response) s) = ''Request failed: '' @ js_join es)
   \<and> (\<not> ok response \<and> json response = Inr err \<and> (detail err = None \<or> detail err = Some [])
        \<and> (errors err = None \<or> errors err = Some es \<and> js_join es = []) \<longrightarrow>
        errorText (generateBtn_resume (Resolved response) s)
          = ''Request failed: HTTP '' @ string_of_nat (status response))
   \<and> (\<not> ok response \<and> json response = Inl message \<longrightarrow>
        errorText (generateBtn_resume (Resolved response) s)
          = ''Request failed: HTTP '' @ string_of_nat (status response))"
proof -
  have rejected: "generateInvoice_resume (Rejected message) = Inl message"
    by (simp add: generateInvoice_resume_def)
  have with_detail: "generateInvoice_resume (Resolved response) = Inl d"
    if "\<not> ok response" "json response = Inr err" "detail err = Some d" "d \<noteq> []"
    using that by (simp add: generateInvoice_resume_def error_detail_def)
  have with_errors: "generateInvoice_resume (Resolved response) = Inl (js_join es)"
    if "\<not> ok response" "json response = Inr err" "detail err = None \<or> detail err = Some []"
      "errors err = Some es" "js_join es \<noteq> []"
    using that by (auto simp: generateInvoice_resume_def error_detail_def)
  have with_status: "generateInvoice_resume (Resolved response)
      = Inl (''HTTP '' @ string_of_nat (status response))"
    if "\<not> ok response" "json response = Inr err" "detail err = None \<or> detail err = Some []"
      "errors err = None \<or> errors err = Some es \<and> js_join es = []"
    using that by (auto simp: generateInvoice_resume_def error_detail_def)
  have no_json: "generateInvoice_resume (Resolved response)
      = Inl (''HTTP '' @ string_of_nat (status response))"
    if "\<not> ok response" "json response = Inl message"
    using that by (simp add: generateInvoice_resume_def)
  show ?thesis
    using errorText_resume_failure [OF rejected, of s]
      errorText_resume_failure [OF with_detail, of s]
      errorText_resume_failure [OF with_errors, of s]
      errorText_resume_failure [OF with_status, of s]
      errorText_resume_failure [OF no_json, of s]
    by simp
qed

theorem transport_failure_message_witness:
  "errorText (generateBtn_resume (Rejected ''Failed to fetch'') initial)
       = ''Request failed: Failed to fetch''
   \<and> \<not> ok \<lparr>status = 400, json = Inr detail_body\<rparr>
   \<and> errorText (generateBtn_resume (Resolved \<lparr>status = 400, json = Inr detail_body\<rparr>) initial)
       = ''Request failed: Invalid PO''
   \<and> errorText (generateBtn_resume (Resolved \<lparr>status = 400, json = Inr failed_body\<rparr>) initial)
       = ''Request failed: A\<newline>B''
   \<and> errorText (generateBtn_resume (Resolved \<lparr>status = 400, json = Inr empty_body\<rparr>) initial)
       = ''Request failed: HTTP 400''
   \<and> \<not> ok \<lparr>status = 502, json = Inl ''Unexpected token''\<rparr>
   \<and> errorText (generateBtn_resume (Resolved \<lparr>status = 502, json = Inl ''Unexpected token''\<rparr>) initial)
       = ''Request failed: HTTP 502''"
  using transport_failure_message
      [of "''Failed to fetch''" initial "\<lparr>status = 400, json = Inr detail_body\<rparr>" detail_body
          "''Invalid PO''"]
    transport_failure_message
      [of _ initial "\<lparr>status = 400, json = Inr failed_body\<rparr>" failed_body _ "[''A'', ''B'']"]
    transport_failure_message
      [of _ initial "\<lparr>status = 400, json = Inr empty_body\<rparr>" empty_body]
    transport_failure_message
      [of "''Unexpected token''" initial "\<lparr>status = 502, json = Inl ''Unexpected token''\<rparr>"]
  by (simp add: ok_def detail_body_def failed_body_def empty_body_def string_of_nat_400
      string_of_nat_502)

text \<open>
  C5, as stated, fails: for a returned response with \<open>success = false\<close> and the errors
  \<open>[""]\<close>, a list that is not empty, the joined text is empty and the banner shows
  \<open>Unknown error\<close>.
\<close>

theorem logical_failure_counterexample:
  "ok \<lparr>status = 200, json = Inr blank_error_body\<rparr>
   \<and> success blank_error_body = False
   \<and> errors blank_error_body = Some ['''']
   \<and> errorText (generateBtn_resume (Resolved \<lparr>status = 200, json = Inr blank_error_body\<rparr>) initial)
        = ''Unknown error''
   \<and> errorText (generateBtn_resume (Resolved \<lparr>status = 200, json = Inr blank_error_body\<rparr>) initial)
        \<noteq> js_join ['''']"
  by (simp add: generateBtn_resume_def generateInvoice_resume_def ok_def blank_error_body_def
      showError_def)

text \<open>
  C5, amended. For every response that \<open>generateInvoice\<close> returns with \<open>success = false\<close>
  the error section is visible and the results section is hidden. When the list of
  errors is neither empty nor the single empty string, the banner shows the errors
  joined by newlines; for the errors \<open>["A", "B"]\<close> it reads \<open>A\<close>, newline, \<open>B\<close>. When the
  joined text is empty, that is for the empty list and for the single empty string,
  and when the response has no errors, the banner shows \<open>Unknown error\<close>.
\<close>

theorem logical_failure_banner:
  "(ok response \<and> json response = Inr result \<and> \<not> success result \<and> errors result = Some es
      \<and> es \<noteq> [] \<and> es \<noteq> [[]] \<longrightarrow>
      errorText (generateBtn_resume (Resolved response) s) = js_join es
      \<and> \<not> errorSection_hidden (generateBtn_resume (Resolved response) s)
      \<and> resultsSection_hidden (generateBtn_resume (Resolved response) s))
   \<and> (ok response \<and> json response = Inr result \<and> \<not> success result
      \<and> (errors result = None \<or> errors result = Some [] \<or> errors result = Some [[]]) \<longrightarrow>
      errorText (generateBtn_resume (Resolved response) s) = ''Unknown error''
      \<and> \<not> errorSection_hidden (generateBtn_resume (Resolved response) s)
      \<and> resultsSection_hidden (generateBtn_resume (Resolved response) s))
   \<and> (js_join es = [] \<longleftrightarrow> es = [] \<or> es = [[]])
   \<and> js_join [''A'', ''B''] = ''A\<newline>B''"
proof -
  have joined: "errorText (generateBtn_resume (Resolved response) s) = js_join es
      \<and> \<not> errorSection_hidden (generateBtn_resume (Resolved response) s)
      \<and> resultsSection_hidden (generateBtn_resume (Resolved response) s)"
    if "ok response" "json response = Inr result" "\<not> success result" "errors result = Some es"
      "es \<noteq> []" "es \<noteq> [[]]"
    using that
    by (simp add: generateBtn_resume_def generateInvoice_resume_def showError_def
        js_join_empty_iff)
  have unknown: "errorText (generateBtn_resume (Resolved response) s) = ''Unknown error''
      \<and> \<not> errorSection_hidden (generateBtn_resume (Resolved response) s)
      \<and> resultsSection_hidden (generateBtn_resume (Resolved response) s)"
    if "ok response" "json response = Inr result" "\<not> success result"
      "errors result = None \<or> errors result = Some [] \<or> errors result = Some [[]]"
    using that
    by (auto simp: generateBtn_resume_def generateInvoice_resume_def showError_def)
  show ?thesis
    using joined unknown js_join_empty_iff [of es] by simp
qed

theorem logical_failure_banner_witness:
  "ok \<lparr>status = 200, json = Inr failed_body\<rparr>
   \<and> \<not> success failed_body
   \<and> errors failed_body = Some [''A'', ''B'']
   \<and> errorText (generateBtn_resume (Resolved \<lparr>status = 200, json = Inr failed_body\<rparr>) initial)
     = ''A\<newline>B''
   \<and> \<not> errorSection_hidden
       (generateBtn_resume (Resolved \<lparr>status = 200, json = Inr failed_body\<rparr>) initial)
   \<and> resultsSection_hidden
       (generateBtn_resume (Resolved \<lparr>status = 200, json = Inr failed_body\<rparr>) initial)
   \<and> \<not> success empty_body
   \<and> errors empty_body = None
   \<and> errorText (generateBtn_resume (Resolved \<lparr>status = 200, json = Inr empty_body\<rparr>) initial)
     = ''Unknown error''
   \<and> \<not> errorSection_hidden
       (generateBtn_resume (Resolved \<lparr>status = 200, json = Inr empty_body\<rparr>) initial)"
  using logical_failure_banner
      [of "\<lparr>status = 200, json = Inr failed_body\<rparr>" failed_body "[''A'', ''B'']" initial]
    logical_failure_banner
      [of "\<lparr>status = 200, json = Inr empty_body\<rparr>" empty_body _ initial]
  by (simp add: ok_def failed_body_def empty_body_def)

section \<open>The stored result\<close>

text \<open>
  C8, as stated, fails: a returned response with \<open>success = false\<close> replaces the stored
  result, although the attempt did not succeed.
\<close>

theorem lastResult_counterexample:
  "\<not> success failed_body
   \<and> lastResult (initial\<lparr>lastResult := Some succeeded_body\<rparr>) = Some succeeded_body
   \<and> lastResult (generateBtn_resume (Resolved \<lparr>status = 200, json = Inr failed_body\<rparr>)
        (initial\<lparr>lastResult := Some succeeded_body\<rparr>)) = Some failed_body
   \<and> failed_body \<noteq> succeeded_body"
  by (simp add: generateBtn_resume_def generateInvoice_resume_def ok_def failed_body_def
      succeeded_body_def showError_def)

text \<open>
  C8, amended. The stored result is replaced by every response that \<open>generateInvoice\<close>
  returns, that is a response with an ok status and a JSON body, whatever its \<open>success\<close>
  flag. It is unchanged when the status is outside the ok range, when the body is not
  JSON, when the fetch is rejected, and by the click itself, whether the configuration
  parses or not.
\<close>

theorem lastResult_replaced:
  "(ok response \<and> json response = Inr result \<longrightarrow>
      lastResult (generateBtn_resume (Resolved response) s) = Some result)
   \<and> (\<not> ok response \<or> json response = Inl message \<longrightarrow>
      lastResult (generateBtn_resume (Resolved response) s) = lastResult s)
   \<and> lastResult (generateBtn_resume (Rejected message) s) = lastResult s
   \<and> lastResult (generateBtn_click JSON_parse s) = lastResult s"
  by (auto simp: generateBtn_resume_def generateInvoice_resume_def generateBtn_click_def
      showError_def showResults_def Let_def split: sum.splits)

theorem lastResult_replaced_witness:
  "ok \<lparr>status = 200, json = Inr succeeded_body\<rparr>
   \<and> lastResult (generateBtn_resume (Resolved \<lparr>status = 200, json = Inr succeeded_body\<rparr>) initial)
     = Some succeeded_body
   \<and> \<not> ok \<lparr>status = 500, json = Inr failed_body\<rparr>
   \<and> lastResult (generateBtn_resume (Resolved \<lparr>status = 500, json = Inr failed_body\<rparr>)
        (initial\<lparr>lastResult := Some succeeded_body\<rparr>)) = Some succeeded_body"
  using lastResult_replaced
      [of "\<lparr>status = 200, json = Inr succeeded_body\<rparr>" succeeded_body initial]
    lastResult_replaced
      [of "\<lparr>status = 500, json = Inr failed_body\<rparr>" _
          "initial\<lparr>lastResult := Some succeeded_body\<rparr>"]
  by (simp add: ok_def initial_def)

section \<open>Rendering of results\<close>




text \<open>
  C10. \<open>showResults\<close> shows the results section and hides the error section, \<open>showError\<close>
  does the reverse. Hence after any sequence of the two, other than the empty sequence
  from a page that shows both, the sections are not both visible; and no event of the
  page makes both visible when they were not.
\<close>

theorem results_error_exclusive:
  "(\<not> resultsSection_hidden (showResults result s) \<and> errorSection_hidden (showResults result s))
   \<and> (\<not> errorSection_hidden (showError msg s) \<and> resultsSection_hidden (showError msg s))
   \<and> (ops \<noteq> [] \<or> exclusive s \<longrightarrow> exclusive (display ops s))
   \<and> (exclusive s \<longrightarrow> exclusive (run JSON_parse es s))"
  using display_exclusive [of ops s] run_exclusive [of s JSON_parse es]
  by (simp add: showResults_def showError_def)

theorem results_error_exclusive_witness:
  "exclusive initial
   \<and> exclusive (display [ShowResults succeeded_body, ShowError ''Unknown error''] initial)
   \<and> exclusive (run accept_json
        [Drop Po [po_file], Drop Ts [ts_file1], Drop Tpl [tpl_file], ClickGenerate,
         FetchSettled 0 (Resolved \<lparr>status = 200, json = Inr succeeded_body\<rparr>)] initial)"
  using results_error_exclusive
    [of _ initial _ "[ShowResults succeeded_body, ShowError ''Unknown error'']" accept_json
        "[Drop Po [po_file], Drop Ts [ts_file1], Drop Tpl [tpl_file], ClickGenerate,
          FetchSettled 0 (Resolved \<lparr>status = 200, json = Inr succeeded_body\<rparr>)]"]
  by (simp add: exclusive_def initial_def)

section \<open>The health indicator\<close>

text \<open>
  C7. When the health fetch is rejected, whatever the reason, \<open>checkHealth\<close> returns
  false and the indicator is set to offline; \<open>checkHealth\<close> returns true exactly when the
  fetch resolves with a status in the ok range 200 to 299.
\<close>

theorem checkHealth_offline:
  "checkHealth (Rejected reason) = False
   \<and> healthLabel (checkBackendHealth (Rejected reason) s) = ''API Offline''
   \<and> healthDot (checkBackendHealth (Rejected reason) s) = ''health-dot unhealthy''
   \<and> checkHealth outcome
       = (\<exists>res. outcome = Resolved res \<and> 200 \<le> status res \<and> status res \<le> 299)"
  by (cases outcome) (simp_all add: checkHealth_def checkBackendHealth_def ok_def)

end
